theory Spec2Isabelle
  imports
    Complex_Main
    "HOL-Library.Sublist"
    "HOL-Library.AList"
    "HOL-Library.Char_ord"
    "HOL-Library.List_Lexorder"
    "HOL-Library.Product_Lexorder"
begin

section \<open>Namespaced user IDs (models/participant.go)\<close>

text \<open>
  Go strings are byte sequences; they are embedded as \<open>string\<close> (a list of \<open>char\<close>).
  \<open>Index\<close>, \<open>Count\<close> and \<open>Split\<close> follow the functions of Go's package \<open>strings\<close> for a
  non-empty separator: \<open>Index\<close> is the position of the leftmost occurrence, \<open>Count\<close> the number
  of non-overlapping occurrences found scanning from the left, and \<open>Split\<close> cuts at exactly
  those occurrences. The only separator the program uses is \<open>''___''\<close>.
\<close>

fun Index :: "string \<Rightarrow> string \<Rightarrow> nat option" where
  "Index [] sep = (if sep = [] then Some 0 else None)"
| "Index (c # cs) sep =
     (if prefix sep (c # cs) then Some 0 else map_option Suc (Index cs sep))"

definition Contains :: "string \<Rightarrow> string \<Rightarrow> bool" where
  "Contains s sep = (Index s sep \<noteq> None)"

lemma Index_bound: "Index s sep = Some m \<Longrightarrow> m + length sep \<le> length s"
proof (induction s arbitrary: m)
  case Nil
  then show ?case by (simp split: if_splits)
next
  case (Cons c cs)
  show ?case
  proof (cases "prefix sep (c # cs)")
    case True
    with Cons.prems have "m = 0" by simp
    from True have "length sep \<le> length (c # cs)" by (rule prefix_length_le)
    with \<open>m = 0\<close> show ?thesis by simp
  next
    case False
    with Cons.prems obtain k where "Index cs sep = Some k" "m = Suc k" by auto
    with Cons.IH show ?thesis by fastforce
  qed
qed

function Split :: "string \<Rightarrow> string \<Rightarrow> string list" where
  "Split s sep =
     (if sep = [] then map (\<lambda>c. [c]) s
      else case Index s sep of
             None \<Rightarrow> [s]
           | Some m \<Rightarrow> take m s # Split (drop (m + length sep) s) sep)"
  by pat_completeness auto
termination
proof (relation "measure (\<lambda>(s, sep). length s)")
  show "wf (measure (\<lambda>(s, sep). length s))" by simp
next
  fix s sep :: string and m :: nat
  assume "sep \<noteq> []" and "Index s sep = Some m"
  then have "m + length sep \<le> length s" and "0 < length sep"
    by (simp_all add: Index_bound)
  then have "length s - (m + length sep) < length s"
    by arith
  then show "((drop (m + length sep) s, sep), (s, sep)) \<in> measure (\<lambda>(s, sep). length s)"
    by simp
qed

function Count :: "string \<Rightarrow> string \<Rightarrow> nat" where
  "Count s sep =
     (if sep = [] then Suc (length s)
      else case Index s sep of
             None \<Rightarrow> 0
           | Some m \<Rightarrow> Suc (Count (drop (m + length sep) s) sep))"
  by pat_completeness auto
termination
proof (relation "measure (\<lambda>(s, sep). length s)")
  show "wf (measure (\<lambda>(s, sep). length s))" by simp
next
  fix s sep :: string and m :: nat
  assume "sep \<noteq> []" and "Index s sep = Some m"
  then have "m + length sep \<le> length s" and "0 < length sep"
    by (simp_all add: Index_bound)
  then have "length s - (m + length sep) < length s"
    by arith
  then show "((drop (m + length sep) s, sep), (s, sep)) \<in> measure (\<lambda>(s, sep). length s)"
    by simp
qed

declare Split.simps [simp del] Count.simps [simp del]

text \<open>\<open>strings.Cut\<close>: the text before and after the leftmost occurrence.\<close>

definition Cut :: "string \<Rightarrow> string \<Rightarrow> (string \<times> string) option" where
  "Cut s sep = map_option (\<lambda>m. (take m s, drop (m + length sep) s)) (Index s sep)"

definition CreateNamespacedUserID :: "string \<Rightarrow> string \<Rightarrow> string" where
  "CreateNamespacedUserID clientID userID = clientID @ ''___'' @ userID"

definition SplitNamespacedUserID :: "string \<Rightarrow> string \<times> string" where
  "SplitNamespacedUserID namespacedUserID =
     (case Split namespacedUserID ''___'' of
        [p0, p1] \<Rightarrow> (p0, p1)
      | _ \<Rightarrow> ([], []))"


section \<open>Errors, time and the data of the two stores\<close>

text \<open>
  Every \<open>fmt.Errorf\<close> of the program is one constructor; the wrapped cause (\<open>%w\<close>) is dropped.
  \<open>MarshalKeyFailed\<close> and \<open>MarshalModelFailed\<close> belong to \<open>attributevalue.MarshalMap\<close>,
  which does not fail on a map of two strings nor on a \<open>ParticipantModel\<close>.
\<close>

datatype error =
    InvalidNamespacedUserID
  | RedisExistsFailed
  | RedisPipelineFailed
  | DynamoQueryFailed
  | TopNFailed
  | ParticipantNotFound
  | GetScoreFailed
  | GetRankFailed
  | MarshalKeyFailed
  | MarshalModelFailed
  | DynamoUpdateFailed
  | RedisUpdateFailed
  | CheckParticipantFailed
  | DynamoPutFailed
  | RedisRemoveFailed
  | DynamoDeleteFailed

text \<open>
  A \<open>time.Time\<close> is an integer count of nanoseconds, a \<open>time.Duration\<close> too; a Duration is a
  64-bit integer, and \<open>Time.Sub\<close> returns the largest or smallest Duration when the difference
  does not fit. A \<open>float64\<close> score is a real number: no theorem below depends on rounding, and
  the sums of scores stand for the sums the stores compute.
\<close>

definition Hour :: int where
  "Hour = 3600000000000"

definition Second :: int where
  "Second = 1000000000"

definition maxDuration :: int where
  "maxDuration = 2 ^ 63 - 1"

definition minDuration :: int where
  "minDuration = - (2 ^ 63)"

definition time_Add :: "int \<Rightarrow> int \<Rightarrow> int" where
  "time_Add t d = t + d"

definition time_After :: "int \<Rightarrow> int \<Rightarrow> bool" where
  "time_After t u = (u < t)"

definition time_Sub :: "int \<Rightarrow> int \<Rightarrow> int" where
  "time_Sub t u =
     (let d = t - u
      in if maxDuration < d then maxDuration
         else if d < minDuration then minDuration
         else d)"

definition time_Unix :: "int \<Rightarrow> int" where
  "time_Unix t = t div Second"

text \<open>
  \<open>fmt.Sprintf("%f", x)\<close>: the decimal text of \<open>x\<close> with six digits after the point, the
  nearest such decimal, a tie going to the even last digit. The value of that text:
\<close>

definition Sprintf_f :: "real \<Rightarrow> real" where
  "Sprintf_f x =
     (let y = x * 1000000; f = \<lfloor>y\<rfloor>; r = y - of_int f
      in of_int (if r < 1 / 2 then f
                 else if 1 / 2 < r then f + 1
                 else if even f then f else f + 1) / 1000000)"

record MemberScore =
  Member :: string
  Score :: real
  Rank :: int

record ParticipantModel =
  LeaderboardID :: string
  NamespacedUserID :: string
  ClientID :: string
  UserID :: string
  Score :: real
  UpdatedAt :: int

text \<open>
  An item of the table \<open>PlatformLeaderboardScores\<close>, under its key (leaderboardID,
  namespacedUserID). \<open>PutItem\<close> writes the attributes of the marshalled model and
  \<open>created_at\<close>; \<open>UpdateItem\<close> sets \<open>score\<close> and \<open>updated_at\<close> (the RFC 3339 text of the
  time, kept here as its whole seconds). Every item has a score, so the type assertions of
  \<open>processPage\<close> do not panic.
\<close>

record item =
  item_clientID :: "string option"
  item_userID :: "string option"
  item_score :: real
  item_updatedAt :: "int option"
  item_updated_at :: "int option"
  item_created_at :: "int option"

type_synonym dynamoKey = "string \<times> string"

text \<open>The commands a Redis pipeline queues: key first, as in the calls of the source.\<close>

datatype cmd =
    Del string
  | ZAdd string real string
  | ZIncrBy string real string
  | ZRem string string
  | Expire string int

text \<open>The calls that reach a store; the world keeps them, in order, in its trace.\<close>

datatype call =
    RedisExists string
  | RedisExec "cmd list"
  | RedisZRevRangeWithScores string int int
  | RedisZScore string string
  | RedisZRevRank string string
  | DynamoQuery string nat
  | DynamoGetItem dynamoKey
  | DynamoPutItem dynamoKey
  | DynamoUpdateItem dynamoKey
  | DynamoDeleteItem dynamoKey

text \<open>
  The world of one operation: the table, the sorted sets of the cache (a key with no
  member does not exist, as in Redis) with the deadline of each key, the clock (it does not
  advance during one operation, and no key expires during it), and the environment's
  choices: \<open>faults w n\<close> says that the store call made after \<open>n\<close> earlier calls fails,
  \<open>garbled w n\<close> that the page it returns cannot be unmarshalled, and \<open>pageSize\<close> is the
  number of items the table returns per page of a query.
\<close>

record world =
  table :: "(dynamoKey \<times> item) list"
  zsets :: "string \<rightharpoonup> (string \<times> real) list"
  deadline :: "string \<rightharpoonup> int"
  clock :: int
  faults :: "nat \<Rightarrow> bool"
  garbled :: "nat \<Rightarrow> bool"
  pageSize :: nat
  trace :: "call list"

definition store_call :: "call \<Rightarrow> world \<Rightarrow> bool \<times> world" where
  "store_call c w = (faults w (length (trace w)), w\<lparr>trace := trace w @ [c]\<rparr>)"

text \<open>
  Modelled from the spec: \<open>utils.GetCurrTimeStamp\<close> is not among the sources; the spec calls
  its result the current time.
\<close>

definition GetCurrTimeStamp :: "world \<Rightarrow> int" where
  "GetCurrTimeStamp w = clock w"


section \<open>The cache store\<close>

definition zmembers :: "world \<Rightarrow> string \<Rightarrow> (string \<times> real) list" where
  "zmembers w k = (case zsets w k of None \<Rightarrow> [] | Some z \<Rightarrow> z)"

definition drop_key :: "string \<Rightarrow> world \<Rightarrow> world" where
  "drop_key k w = w\<lparr>zsets := (zsets w)(k := None), deadline := (deadline w)(k := None)\<rparr>"

text \<open>
  One command on the store. \<open>ZADD\<close> sets a member's score, \<open>ZINCRBY\<close> adds to it (from 0
  for a new member); both create the key. \<open>ZREM\<close> of the last member removes the key.
  \<open>EXPIRE\<close> does nothing to a key that does not exist, removes the key when the duration
  is not positive, and otherwise sets its deadline.
\<close>

fun apply_cmd :: "cmd \<Rightarrow> world \<Rightarrow> world" where
  "apply_cmd (Del k) w = drop_key k w"
| "apply_cmd (ZAdd k sc m) w =
     w\<lparr>zsets := (zsets w)(k \<mapsto> AList.update m sc (zmembers w k))\<rparr>"
| "apply_cmd (ZIncrBy k d m) w =
     (let z = zmembers w k;
          old = (case map_of z m of None \<Rightarrow> 0 | Some sc \<Rightarrow> sc)
      in w\<lparr>zsets := (zsets w)(k \<mapsto> AList.update m (old + d) z)\<rparr>)"
| "apply_cmd (ZRem k m) w =
     (let z = AList.delete m (zmembers w k)
      in if z = [] then drop_key k w else w\<lparr>zsets := (zsets w)(k \<mapsto> z)\<rparr>)"
| "apply_cmd (Expire k d) w =
     (if zsets w k = None then w
      else if d \<le> 0 then drop_key k w
      else w\<lparr>deadline := (deadline w)(k \<mapsto> clock w + d)\<rparr>)"

text \<open>\<open>pipe.Exec\<close>: one call; it fails as a whole or runs the queued commands in order.\<close>

definition pipe_Exec :: "cmd list \<Rightarrow> world \<Rightarrow> bool \<times> world" where
  "pipe_Exec pipe w =
     (let (failed, w1) = store_call (RedisExec pipe) w
      in if failed then (True, w1) else (False, fold apply_cmd pipe w1))"

text \<open>
  The descending order of a sorted set: by score, members of equal score by their bytes,
  both from the largest.
\<close>

definition zrev :: "(string \<times> real) list \<Rightarrow> (string \<times> real) list" where
  "zrev z = rev (sort_key (\<lambda>(m, sc). (sc, m)) z)"

text \<open>\<open>ZREVRANGE key start stop\<close>: negative indices count from the end.\<close>

definition zrevrange :: "(string \<times> real) list \<Rightarrow> int \<Rightarrow> int \<Rightarrow> (string \<times> real) list" where
  "zrevrange z start stop =
     (let llen = int (length z);
          start1 = (if start < 0 then llen + start else start);
          stop1 = (if stop < 0 then llen + stop else stop);
          start2 = (if start1 < 0 then 0 else start1)
      in if stop1 < start2 \<or> llen \<le> start2 then []
         else let stop2 = (if llen \<le> stop1 then llen - 1 else stop1)
              in take (nat (stop2 - start2 + 1)) (drop (nat start2) (zrev z)))"

fun position :: "'a \<Rightarrow> 'a list \<Rightarrow> nat option" where
  "position x [] = None"
| "position x (y # ys) = (if x = y then Some 0 else map_option Suc (position x ys))"

definition zscore :: "(string \<times> real) list \<Rightarrow> string \<Rightarrow> real option" where
  "zscore z m = map_of z m"

definition zrevrank :: "(string \<times> real) list \<Rightarrow> string \<Rightarrow> int option" where
  "zrevrank z m = map_option int (position m (map fst (zrev z)))"

text \<open>The 64-bit signed value of an integer expression, for \<open>n-1\<close> on an \<open>int64\<close>.\<close>

definition int64 :: "int \<Rightarrow> int" where
  "int64 x = (x + 2 ^ 63) mod 2 ^ 64 - 2 ^ 63"

section \<open>The synchronization controller (repos, ensureLeaderboardExists)\<close>

definition getRedisKey :: "string \<Rightarrow> string" where
  "getRedisKey leaderboardID = ''leaderboard:'' @ leaderboardID"

definition setupLeaderboardExpiry :: "string \<Rightarrow> int \<Rightarrow> world \<Rightarrow> cmd list \<Rightarrow> cmd list" where
  "setupLeaderboardExpiry redisKey leaderboardEndTime w pipe =
     (let expiryTime = time_Add leaderboardEndTime (24 * Hour);
          now = GetCurrTimeStamp w
      in if time_After expiryTime now
         then pipe @ [Expire redisKey (time_Sub expiryTime now)]
         else pipe)"

text \<open>
  The query of one partition, projected to (namespacedUserID, score), and its pages: at
  least one page, the last one possibly short, an empty partition giving one empty page.
\<close>

definition partition_of :: "string \<Rightarrow> world \<Rightarrow> (string \<times> real) list" where
  "partition_of leaderboardID w =
     map (\<lambda>(k, it). (snd k, item_score it))
       (filter (\<lambda>(k, it). fst k = leaderboardID) (table w))"

function query_pages :: "nat \<Rightarrow> 'a list \<Rightarrow> 'a list list" where
  "query_pages n xs =
     (if length xs \<le> max 1 n then [xs]
      else take (max 1 n) xs # query_pages n (drop (max 1 n) xs))"
  by pat_completeness auto
termination
  by (relation "measure (\<lambda>(n, xs). length xs)") auto

declare query_pages.simps [simp del]

text \<open>
  The paginator loop of \<open>syncLeaderboard\<close> with \<open>processPage\<close> inlined: each \<open>NextPage\<close> is
  a store call; when it fails the function returns the error, the commands queued so far
  staying in the pipeline; a page that cannot be unmarshalled is skipped.
\<close>

fun scan_pages ::
  "string \<Rightarrow> string \<Rightarrow> nat \<Rightarrow> (string \<times> real) list list \<Rightarrow> cmd list \<Rightarrow> world
   \<Rightarrow> (error option \<times> cmd list) \<times> world" where
  "scan_pages leaderboardID redisKey i [] pipe w = ((None, pipe), w)"
| "scan_pages leaderboardID redisKey i (page # pages) pipe w =
     (let (failed, w1) = store_call (DynamoQuery leaderboardID i) w
      in if failed then ((Some DynamoQueryFailed, pipe), w1)
         else if garbled w (length (trace w))
         then scan_pages leaderboardID redisKey (Suc i) pages pipe w1
         else scan_pages leaderboardID redisKey (Suc i) pages
                (pipe @ map (\<lambda>(namespacedUserID, score). ZAdd redisKey score namespacedUserID) page)
                w1)"

definition syncLeaderboard ::
  "string \<Rightarrow> cmd list \<Rightarrow> world \<Rightarrow> (error option \<times> cmd list) \<times> world" where
  "syncLeaderboard leaderboardID pipe w =
     (let redisKey = getRedisKey leaderboardID
      in scan_pages leaderboardID redisKey 0
           (query_pages (pageSize w) (partition_of leaderboardID w))
           (pipe @ [Del redisKey]) w)"

text \<open>
  \<open>redis.Z{}\<close> has score 0 and no member; the client writes a missing argument as the empty
  string, so the command queued on a failed scan is \<open>ZADD key 0 ""\<close>.
\<close>

definition ensureLeaderboardExists :: "string \<Rightarrow> int \<Rightarrow> world \<Rightarrow> (error + unit) \<times> world" where
  "ensureLeaderboardExists leaderboardID leaderboardEndTime w =
     (let redisKey = getRedisKey leaderboardID;
          (failed, w1) = store_call (RedisExists redisKey) w
      in if failed then (Inl RedisExistsFailed, w1)
         else if zsets w1 redisKey = None
         then (let ((err, pipe), w2) = syncLeaderboard leaderboardID [] w1;
                   pipe1 = (if err \<noteq> None then pipe @ [ZAdd redisKey 0 []] else pipe);
                   pipe2 = setupLeaderboardExpiry redisKey leaderboardEndTime w2 pipe1;
                   (failed2, w3) = pipe_Exec pipe2 w2
               in if failed2 then (Inl RedisPipelineFailed, w3) else (Inr (), w3))
         else (Inr (), w1))"


section \<open>The score ledger (repos/participant.go)\<close>

text \<open>\<open>attributevalue.MarshalMap\<close> of the two key strings, and of a participant.\<close>

definition MarshalKey :: "string \<Rightarrow> string \<Rightarrow> error + dynamoKey" where
  "MarshalKey leaderboardID namespacedUserID = Inr (leaderboardID, namespacedUserID)"

definition MarshalParticipant :: "ParticipantModel \<Rightarrow> error + item" where
  "MarshalParticipant p =
     Inr \<lparr>item_clientID = Some (ClientID p), item_userID = Some (UserID p),
          item_score = ParticipantModel.Score p, item_updatedAt = Some (UpdatedAt p),
          item_updated_at = None, item_created_at = None\<rparr>"

text \<open>
  \<open>SET score = if_not_exists(score, :zero) + :incVal, updated_at = :updatedAt\<close> on the item
  under a key; the item is created when the table has none.
\<close>

definition update_item :: "dynamoKey \<Rightarrow> real \<Rightarrow> int \<Rightarrow> (dynamoKey \<times> item) list \<Rightarrow> (dynamoKey \<times> item) list" where
  "update_item k incVal updatedAt tb =
     (case map_of tb k of
        None \<Rightarrow>
          AList.update k
            \<lparr>item_clientID = None, item_userID = None, item_score = 0 + incVal,
             item_updatedAt = None, item_updated_at = Some updatedAt, item_created_at = None\<rparr> tb
      | Some it \<Rightarrow>
          AList.update k
            (it\<lparr>item_score := item_score it + incVal, item_updated_at := Some updatedAt\<rparr>) tb)"

definition ranked :: "(string \<times> real) list \<Rightarrow> MemberScore list" where
  "ranked results =
     map (\<lambda>(i, (m, sc)). \<lparr>Member = m, MemberScore.Score = sc, Rank = int (i + 1)\<rparr>)
       (zip [0..<length results] results)"

definition GetTopNParticipants ::
  "string \<Rightarrow> int \<Rightarrow> int \<Rightarrow> world \<Rightarrow> (error + MemberScore list) \<times> world" where
  "GetTopNParticipants leaderboardID n leaderboardEndTime w =
     (let redisKey = getRedisKey leaderboardID
      in case ensureLeaderboardExists leaderboardID leaderboardEndTime w of
           (Inl err, w1) \<Rightarrow> (Inl err, w1)
         | (Inr _, w1) \<Rightarrow>
             (let (failed, w2) = store_call (RedisZRevRangeWithScores redisKey 0 (int64 (n - 1))) w1
              in if failed then (Inl TopNFailed, w2)
                 else (Inr (ranked (zrevrange (zmembers w2 redisKey) 0 (int64 (n - 1)))), w2)))"

definition GetParticipantScoreAndRank ::
  "string \<Rightarrow> string \<Rightarrow> int \<Rightarrow> world \<Rightarrow> (error + MemberScore) \<times> world" where
  "GetParticipantScoreAndRank leaderboardID namespacedUserID leaderboardEndTime w =
     (let redisKey = getRedisKey leaderboardID
      in case ensureLeaderboardExists leaderboardID leaderboardEndTime w of
           (Inl err, w1) \<Rightarrow> (Inl err, w1)
         | (Inr _, w1) \<Rightarrow>
             (let (failed, w2) = store_call (RedisZScore redisKey namespacedUserID) w1
              in if failed then (Inl GetScoreFailed, w2)
                 else case zscore (zmembers w2 redisKey) namespacedUserID of
                        None \<Rightarrow> (Inl ParticipantNotFound, w2)
                      | Some score \<Rightarrow>
                          (let (failed3, w3) = store_call (RedisZRevRank redisKey namespacedUserID) w2
                           in if failed3 then (Inl GetRankFailed, w3)
                              else case zrevrank (zmembers w3 redisKey) namespacedUserID of
                                     None \<Rightarrow> (Inl GetRankFailed, w3)
                                   | Some rank \<Rightarrow>
                                       (Inr \<lparr>Member = namespacedUserID, MemberScore.Score = score,
                                             Rank = rank + 1\<rparr>, w3))))"

definition UpdateScore ::
  "string \<Rightarrow> string \<Rightarrow> real \<Rightarrow> int \<Rightarrow> world \<Rightarrow> (error + unit) \<times> world" where
  "UpdateScore leaderboardID namespacedUserID scoreDelta leaderboardEndTime w =
     (let redisKey = getRedisKey leaderboardID
      in case MarshalKey leaderboardID namespacedUserID of
           Inl err \<Rightarrow> (Inl MarshalKeyFailed, w)
         | Inr dynamoKey \<Rightarrow>
             (let now = GetCurrTimeStamp w;
                  (failed, w1) = store_call (DynamoUpdateItem dynamoKey) w
              in if failed then (Inl DynamoUpdateFailed, w1)
                 else (let w2 = w1\<lparr>table := update_item dynamoKey (Sprintf_f scoreDelta)
                                               (time_Unix now) (table w1)\<rparr>;
                           pipe = [ZIncrBy redisKey scoreDelta namespacedUserID]
                       in case ensureLeaderboardExists leaderboardID leaderboardEndTime w2 of
                            (Inl err, w3) \<Rightarrow> (Inl err, w3)
                          | (Inr _, w3) \<Rightarrow>
                              (let (failed4, w4) = pipe_Exec pipe w3
                               in if failed4 then (Inl RedisUpdateFailed, w4)
                                  else (Inr (), w4)))))"

definition JoinLeaderboard ::
  "ParticipantModel \<Rightarrow> int \<Rightarrow> world \<Rightarrow> (error + unit) \<times> world" where
  "JoinLeaderboard participant leaderboardEndTime w =
     (let redisKey = getRedisKey (LeaderboardID participant)
      in case MarshalKey (LeaderboardID participant) (NamespacedUserID participant) of
           Inl err \<Rightarrow> (Inl MarshalKeyFailed, w)
         | Inr dynamoKey \<Rightarrow>
             (let (failed, w1) = store_call (DynamoGetItem dynamoKey) w
              in if failed then (Inl CheckParticipantFailed, w1)
                 else (let participant1 = participant\<lparr>UpdatedAt := GetCurrTimeStamp w1\<rparr>
                       in case MarshalParticipant participant1 of
                            Inl err \<Rightarrow> (Inl MarshalModelFailed, w1)
                          | Inr it \<Rightarrow>
                              (let it1 = it\<lparr>item_created_at := Some (time_Unix (UpdatedAt participant1))\<rparr>;
                                   (failed2, w2) =
                                     store_call (DynamoPutItem (LeaderboardID participant1,
                                                                NamespacedUserID participant1)) w1
                               in if failed2 then (Inl DynamoPutFailed, w2)
                                  else (let w3 = w2\<lparr>table :=
                                                   AList.update (LeaderboardID participant1,
                                                                 NamespacedUserID participant1)
                                                     it1 (table w2)\<rparr>;
                                            pipe = [ZAdd redisKey (ParticipantModel.Score participant1)
                                                      (NamespacedUserID participant1)]
                                        in case ensureLeaderboardExists (LeaderboardID participant1)
                                                  leaderboardEndTime w3 of
                                             (Inl err, w4) \<Rightarrow> (Inl err, w4)
                                           | (Inr _, w4) \<Rightarrow>
                                               (let (failed5, w5) = pipe_Exec pipe w4
                                                in if failed5 then (Inl RedisUpdateFailed, w5)
                                                   else (Inr (), w5)))))))"

definition LeaveLeaderboard :: "string \<Rightarrow> string \<Rightarrow> world \<Rightarrow> (error + unit) \<times> world" where
  "LeaveLeaderboard leaderboardID namespacedUserID w =
     (let redisKey = getRedisKey leaderboardID;
          pipe = [ZRem redisKey namespacedUserID];
          (failed, w1) = pipe_Exec pipe w
      in if failed then (Inl RedisRemoveFailed, w1)
         else case MarshalKey leaderboardID namespacedUserID of
                Inl err \<Rightarrow> (Inl MarshalKeyFailed, w1)
              | Inr dynamoKey \<Rightarrow>
                  (let (failed2, w2) = store_call (DynamoDeleteItem dynamoKey) w1
                   in if failed2 then (Inl DynamoDeleteFailed, w2)
                      else (Inr (), w2\<lparr>table := AList.delete dynamoKey (table w2)\<rparr>)))"

section \<open>The helper of one leaderboard (IndividualLeaderboardHelper)\<close>

definition NewParticipantModel :: "string \<Rightarrow> string \<Rightarrow> string \<Rightarrow> real \<Rightarrow> world \<Rightarrow> ParticipantModel" where
  "NewParticipantModel leaderboardID clientID userID score w =
     (let namespacedUserID = CreateNamespacedUserID clientID userID
      in \<lparr>LeaderboardID = leaderboardID, NamespacedUserID = namespacedUserID,
          ClientID = clientID, UserID = userID, ParticipantModel.Score = score,
          UpdatedAt = GetCurrTimeStamp w\<rparr>)"

definition NewParticipantFromNamespacedID :: "string \<Rightarrow> string \<Rightarrow> real \<Rightarrow> world \<Rightarrow> ParticipantModel" where
  "NewParticipantFromNamespacedID leaderboardID namespacedUserID score w =
     (let (clientID, userID) = SplitNamespacedUserID namespacedUserID
      in \<lparr>LeaderboardID = leaderboardID, NamespacedUserID = namespacedUserID,
          ClientID = clientID, UserID = userID, ParticipantModel.Score = score,
          UpdatedAt = GetCurrTimeStamp w\<rparr>)"

record IndividualLeaderboardHelper =
  clientID :: string
  leaderboardID :: string
  leaderboardEndTime :: int

definition validateNamespacedUserID :: "string \<Rightarrow> error + (string \<times> string)" where
  "validateNamespacedUserID namespacedUserID =
     (let (clientID, userID) = SplitNamespacedUserID namespacedUserID
      in if clientID = [] \<or> userID = [] then Inl InvalidNamespacedUserID
         else Inr (clientID, userID))"

definition Helper_UpdateScore ::
  "IndividualLeaderboardHelper \<Rightarrow> string \<Rightarrow> real \<Rightarrow> world \<Rightarrow> (error + unit) \<times> world" where
  "Helper_UpdateScore l namespacedUserID scoreDelta w =
     (case validateNamespacedUserID namespacedUserID of
        Inl err \<Rightarrow> (Inl err, w)
      | Inr (_, userID) \<Rightarrow>
          (let participant = NewParticipantModel (leaderboardID l) (clientID l) userID scoreDelta w
           in UpdateScore (leaderboardID l) (NamespacedUserID participant)
                (ParticipantModel.Score participant) (leaderboardEndTime l) w))"

definition Helper_GetTopNParticipants ::
  "IndividualLeaderboardHelper \<Rightarrow> int \<Rightarrow> world \<Rightarrow> (error + MemberScore list) \<times> world" where
  "Helper_GetTopNParticipants l n w =
     GetTopNParticipants (leaderboardID l) n (leaderboardEndTime l) w"

definition Helper_GetParticipantScoreAndRank ::
  "IndividualLeaderboardHelper \<Rightarrow> string \<Rightarrow> world \<Rightarrow> (error + MemberScore) \<times> world" where
  "Helper_GetParticipantScoreAndRank l namespacedUserID w =
     (case validateNamespacedUserID namespacedUserID of
        Inl err \<Rightarrow> (Inl err, w)
      | Inr _ \<Rightarrow>
          GetParticipantScoreAndRank (leaderboardID l) namespacedUserID (leaderboardEndTime l) w)"

section \<open>Words of the specification\<close>

text \<open>
  A namespaced user ID in the format the specification asks for: the separator occurs
  exactly once (occurrences counted as \<open>strings.Count\<close> counts them), with a non-empty
  component before it and a non-empty component after it.
\<close>

definition well_formed :: "string \<Rightarrow> bool" where
  "well_formed s =
     (Count s ''___'' = 1 \<and>
      (case Cut s ''___'' of None \<Rightarrow> False | Some (c, u) \<Rightarrow> c \<noteq> [] \<and> u \<noteq> []))"

text \<open>The calls an operation adds to the trace of the world it starts from.\<close>

definition calls_of :: "world \<Rightarrow> world \<Rightarrow> call list" where
  "calls_of w w' = drop (length (trace w)) (trace w')"

text \<open>A scan of the table starts with the query of its first page.\<close>

fun is_scan_start :: "call \<Rightarrow> bool" where
  "is_scan_start (DynamoQuery l i) = (i = 0)"
| "is_scan_start _ = False"

definition scans :: "call list \<Rightarrow> nat" where
  "scans cs = length (filter is_scan_start cs)"

fun is_exists_check :: "call \<Rightarrow> bool" where
  "is_exists_check (RedisExists k) = True"
| "is_exists_check _ = False"

text \<open>A world with an empty table and an empty cache, where no call fails.\<close>

definition world0 :: world where
  "world0 =
     \<lparr>table = [], zsets = Map.empty, deadline = Map.empty, clock = 0,
      faults = (\<lambda>n. False), garbled = (\<lambda>n. False), pageSize = 2, trace = []\<rparr>"


section \<open>Facts about splitting\<close>

lemma Split_Some:
  "sep \<noteq> [] \<Longrightarrow> Index s sep = Some m \<Longrightarrow>
   Split s sep = take m s # Split (drop (m + length sep) s) sep"
  by (subst Split.simps) simp

lemma Split_None: "sep \<noteq> [] \<Longrightarrow> Index s sep = None \<Longrightarrow> Split s sep = [s]"
  by (subst Split.simps) simp

lemma length_Split: "sep \<noteq> [] \<Longrightarrow> length (Split s sep) = Suc (Count s sep)"
proof (induction s sep rule: Split.induct)
  case (1 s sep)
  show ?case
  proof (cases "Index s sep")
    case None
    with "1.prems" show ?thesis by (simp add: Split.simps Count.simps)
  next
    case (Some m)
    with "1.prems" "1.IH"
    have "length (Split (drop (m + length sep) s) sep) = Suc (Count (drop (m + length sep) s) sep)"
      by simp
    with Some "1.prems" show ?thesis
      by (subst Split.simps, subst Count.simps) simp
  qed
qed

lemma Index_occurrence:
  assumes "sep \<noteq> []"
  shows "\<exists>m. Index (a @ sep @ b) sep = Some m \<and> m \<le> length a"
proof (induction a)
  case Nil
  from assms obtain x xs where "sep @ b = x # xs" by (cases sep) auto
  moreover have "prefix sep (sep @ b)" by simp
  ultimately show ?case by simp
next
  case (Cons x as)
  then obtain m where "Index (as @ sep @ b) sep = Some m" "m \<le> length as" by blast
  then show ?case by simp
qed

lemma suffix_underscore: "suffix ''_'' c \<longleftrightarrow> c \<noteq> [] \<and> last c = CHR ''_''"
  by (cases c rule: rev_cases) (auto simp: suffix_def)

text \<open>
  In a client ID that holds no separator and does not end in an underscore, followed by the
  separator, the leftmost separator is the one that was appended.
\<close>

lemma Index_append_sep:
  assumes "\<not> Contains c ''___''" and "c = [] \<or> last c \<noteq> CHR ''_''"
  shows "Index (c @ ''___'' @ u) ''___'' = Some (length c)"
  using assms
proof (induction c)
  case Nil
  then show ?case by simp
next
  case (Cons x cs)
  from Cons.prems(1) have np: "\<not> prefix ''___'' (x # cs)" and nc: "\<not> Contains cs ''___''"
    by (auto simp: Contains_def split: if_splits)
  from Cons.prems(2) have lst: "cs = [] \<or> last cs \<noteq> CHR ''_''"
    and x: "cs = [] \<longrightarrow> x \<noteq> CHR ''_''"
    by (auto split: if_splits)
  have "\<not> prefix ''___'' ((x # cs) @ ''___'' @ u)"
  proof (cases cs)
    case Nil
    with x show ?thesis by simp
  next
    case (Cons y ys)
    note cs = this
    show ?thesis
    proof (cases ys)
      case Nil
      with cs lst show ?thesis by simp
    next
      case (Cons z zs)
      with cs np show ?thesis by simp
    qed
  qed
  with Cons.IH[OF nc lst] show ?case by simp
qed

lemma Split_compose:
  assumes "\<not> Contains c ''___''" and "\<not> Contains u ''___''"
    and "c = [] \<or> last c \<noteq> CHR ''_''"
  shows "Split (c @ ''___'' @ u) ''___'' = [c, u]"
proof -
  have i: "Index (c @ ''___'' @ u) ''___'' = Some (length c)"
    using assms(1,3) by (rule Index_append_sep)
  have "Split (c @ ''___'' @ u) ''___'' =
        take (length c) (c @ ''___'' @ u) #
        Split (drop (length c + length ''___'') (c @ ''___'' @ u)) ''___''"
    by (rule Split_Some[OF _ i]) simp
  also have "\<dots> = c # Split u ''___''" by simp
  also have "\<dots> = [c, u]" using assms(2) by (simp add: Split_None Contains_def)
  finally show ?thesis .
qed

lemma roundtrip_holds:
  assumes "\<not> Contains c ''___''" and "\<not> Contains u ''___''" and "\<not> suffix ''_'' c"
  shows "SplitNamespacedUserID (CreateNamespacedUserID c u) = (c, u)"
proof -
  from assms(3) have "c = [] \<or> last c \<noteq> CHR ''_''" by (simp add: suffix_underscore)
  with assms(1,2) have "Split (c @ ''___'' @ u) ''___'' = [c, u]" by (rule Split_compose)
  then show ?thesis by (simp add: SplitNamespacedUserID_def CreateNamespacedUserID_def)
qed

lemma roundtrip_fails:
  assumes "suffix ''_'' c"
  shows "SplitNamespacedUserID (CreateNamespacedUserID c u) \<noteq> (c, u)"
proof -
  from assms obtain c' where c: "c = c' @ ''_''" by (auto simp: suffix_def)
  then have s: "c @ ''___'' @ u = c' @ ''___'' @ (''_'' @ u)" by simp
  obtain m where m: "Index (c @ ''___'' @ u) ''___'' = Some m" "m \<le> length c'"
    using Index_occurrence[of "''___''" c' "''_'' @ u"] unfolding s by auto
  have sp: "Split (c @ ''___'' @ u) ''___'' =
        take m (c @ ''___'' @ u) # Split (drop (m + length ''___'') (c @ ''___'' @ u)) ''___''"
    by (rule Split_Some[OF _ m(1)]) simp
  have len: "length (take m (c @ ''___'' @ u)) < length c" using m(2) c by simp
  have cne: "c \<noteq> []" using c by simp
  show ?thesis
  proof
    assume eq: "SplitNamespacedUserID (CreateNamespacedUserID c u) = (c, u)"
    then have "Split (c @ ''___'' @ u) ''___'' = [c, u]"
      using cne
      by (auto simp: SplitNamespacedUserID_def CreateNamespacedUserID_def split: list.splits)
    with sp have "take m (c @ ''___'' @ u) = c" by simp
    with len show False by simp
  qed
qed

lemma Split_two:
  assumes "Split s ''___'' = [a, b]"
  shows "Cut s ''___'' = Some (a, b) \<and> Count s ''___'' = 1"
proof -
  have c: "Count s ''___'' = 1"
    using length_Split[of "''___''" s] assms by simp
  show ?thesis
  proof (cases "Index s ''___''")
    case None
    then have "Split s ''___'' = [s]" by (simp add: Split_None)
    with assms show ?thesis by simp
  next
    case (Some m)
    then have "Split s ''___'' = take m s # Split (drop (m + length ''___'') s) ''___''"
      by (simp add: Split_Some)
    with assms have a: "a = take m s" and r: "Split (drop (m + length ''___'') s) ''___'' = [b]"
      by simp_all
    have "b = drop (m + length ''___'') s"
    proof (cases "Index (drop (m + length ''___'') s) ''___''")
      case None
      then have "Split (drop (m + length ''___'') s) ''___'' = [drop (m + length ''___'') s]"
        by (simp add: Split_None)
      with r show ?thesis by simp
    next
      case (Some k)
      then have "length (Split (drop (m + length ''___'') s) ''___'') \<ge> 2"
        by (subst Split.simps) (simp add: length_Split)
      with r show ?thesis by simp
    qed
    with a Some c show ?thesis by (simp add: Cut_def)
  qed
qed

lemma validate_Inr:
  assumes "validateNamespacedUserID s = Inr (c, u)"
  shows "well_formed s \<and> Cut s ''___'' = Some (c, u)"
proof -
  from assms have ne: "c \<noteq> []" "u \<noteq> []" and sp: "SplitNamespacedUserID s = (c, u)"
    by (auto simp: validateNamespacedUserID_def Let_def split: prod.splits if_splits)
  from sp ne have "Split s ''___'' = [c, u]"
    by (auto simp: SplitNamespacedUserID_def split: list.splits)
  then have "Cut s ''___'' = Some (c, u) \<and> Count s ''___'' = 1" by (rule Split_two)
  with ne show ?thesis by (simp add: well_formed_def)
qed

section \<open>The claims\<close>

text \<open>
  C3, as the specification states it: for every clientID and userID that do not contain
  the separator, splitting the composed ID gives the pair back. It fails for the client ID
  \<open>a_\<close> and the user ID \<open>b\<close>: the composed ID is \<open>a____b\<close>, whose leftmost separator
  starts one byte early, and the split returns \<open>a\<close> and \<open>_b\<close>.
\<close>

theorem roundtrip_counterexample:
  "\<not> Contains ''a_'' ''___'' \<and> \<not> Contains ''b'' ''___'' \<and>
   SplitNamespacedUserID (CreateNamespacedUserID ''a_'' ''b'') = (''a'', ''_b'') \<and>
   SplitNamespacedUserID (CreateNamespacedUserID ''a_'' ''b'') \<noteq> (''a_'', ''b'')"
  by (simp add: Contains_def SplitNamespacedUserID_def CreateNamespacedUserID_def Split.simps)

text \<open>
  C3, amended: for every clientID and userID that do not contain the separator, splitting
  the composed ID gives the pair back exactly when the clientID does not end in an
  underscore.
\<close>

theorem roundtrip_iff_no_trailing_underscore:
  assumes "\<not> Contains client ''___''" and "\<not> Contains user ''___''"
  shows "SplitNamespacedUserID (CreateNamespacedUserID client user) = (client, user)
         \<longleftrightarrow> \<not> suffix ''_'' client"
  using assms roundtrip_holds roundtrip_fails by blast

theorem roundtrip_iff_no_trailing_underscore_witness:
  "\<not> Contains ''acme'' ''___'' \<and> \<not> Contains ''user_1'' ''___'' \<and> \<not> suffix ''_'' ''acme'' \<and>
   SplitNamespacedUserID (CreateNamespacedUserID ''acme'' ''user_1'') = (''acme'', ''user_1'')"
proof -
  have a: "\<not> Contains ''acme'' ''___''" and b: "\<not> Contains ''user_1'' ''___''"
    by (simp_all add: Contains_def)
  have c: "\<not> suffix ''_'' ''acme''" by (simp add: suffix_underscore)
  from roundtrip_iff_no_trailing_underscore[OF a b] a b c show ?thesis by simp
qed

text \<open>
  C4: a string that is not a well-formed namespaced user ID (exactly one separator, between
  two non-empty components) is refused by \<open>validateNamespacedUserID\<close> with the
  invalid-format error; no pair is returned for it.
\<close>

theorem validate_rejects_malformed:
  "\<not> well_formed s \<Longrightarrow> validateNamespacedUserID s = Inl InvalidNamespacedUserID"
proof -
  assume nw: "\<not> well_formed s"
  show ?thesis
  proof (cases "validateNamespacedUserID s")
    case (Inl e)
    then show ?thesis
      by (auto simp: validateNamespacedUserID_def Let_def split: prod.splits if_splits)
  next
    case (Inr p)
    obtain c u where "p = (c, u)" by (cases p)
    with Inr validate_Inr nw show ?thesis by blast
  qed
qed

theorem validate_rejects_malformed_witness:
  "\<not> well_formed ''a___b___c'' \<and>
   validateNamespacedUserID ''a___b___c'' = Inl InvalidNamespacedUserID"
proof -
  have nw: "\<not> well_formed ''a___b___c''"
    by (simp add: well_formed_def Count.simps)
  from validate_rejects_malformed[OF nw] nw show ?thesis by simp
qed

end
